theory Spec2Isabelle
  imports Complex_Main "HOL-Library.Multiset" "HOL-Library.Char_ord" "HOL-Library.List_Lexorder"
begin

section \<open>Python values\<close>

text \<open>
  The source is a Streamlit script (\<^verbatim>\<open>app.py\<close>). Its data are Python values: the
  result of \<^verbatim>\<open>json.loads\<close>, the dictionaries returned by
  \<^verbatim>\<open>analyze_receipt_with_ai\<close>, the cells of the history \<^verbatim>\<open>DataFrame\<close>.

  A Python \<^verbatim>\<open>str\<close> is represented by the list of the bytes of its UTF-8 encoding;
  the source only compares strings, tests ASCII prefixes and suffixes, cuts these
  off and strips white space, all of which act alike on code points and on their
  encoding.

  A Python \<^verbatim>\<open>float\<close> is a finite value, an infinity or a NaN; a finite float is
  given by the real number it stands for (the two zeros are one). The group totals
  of the aggregation are exact sums of these; the arithmetic of the advisor rounds
  as binary64 does.
\<close>

datatype pyfloat = Fin real | PosInf | NegInf | NaN

text \<open>\<^verbatim>\<open>datetime\<close> objects, as \<^verbatim>\<open>datetime.now()\<close> and \<^verbatim>\<open>datetime.strptime\<close> return them.\<close>

record datetime =
  dt_year :: nat
  dt_month :: nat
  dt_day :: nat
  dt_hour :: nat
  dt_minute :: nat
  dt_second :: nat

datatype pyval =
    PNone
  | PBool bool
  | PInt int
  | PFloat pyfloat
  | PStr string
  | PList "pyval list"
  | PDict "(string \<times> pyval) list"
  | PDateTime datetime

text \<open>
  A \<^verbatim>\<open>dict\<close> keeps its keys in insertion order: an association list with distinct
  keys. \<^verbatim>\<open>d[k] = v\<close> replaces the value of a key in place and appends a new key.
\<close>

type_synonym pydict = "(string \<times> pyval) list"

fun dict_set :: "pydict \<Rightarrow> string \<Rightarrow> pyval \<Rightarrow> pydict" where
  "dict_set [] k v = [(k, v)]"
| "dict_set ((k', v') # d) k v =
     (if k' = k then (k, v) # d else (k', v') # dict_set d k v)"

text \<open>\<^verbatim>\<open>d.get(k, default)\<close>\<close>

definition dict_get :: "pydict \<Rightarrow> string \<Rightarrow> pyval \<Rightarrow> pyval" where
  "dict_get d k dflt = (case map_of d k of None \<Rightarrow> dflt | Some v \<Rightarrow> v)"

text \<open>
  Exceptions (subclasses of \<^verbatim>\<open>Exception\<close>, which is what the handlers of the source
  catch): the class name and the text \<^verbatim>\<open>str(e)\<close>.
\<close>

datatype exn = Exn (exn_class: string) (exn_str: string)

text \<open>Truth value of an object, as \<^verbatim>\<open>not x\<close> and \<^verbatim>\<open>if x:\<close> test it.\<close>

fun truthy :: "pyval \<Rightarrow> bool" where
  "truthy PNone = False"
| "truthy (PBool b) = b"
| "truthy (PInt n) = (n \<noteq> 0)"
| "truthy (PFloat (Fin r)) = (r \<noteq> 0)"
| "truthy (PFloat _) = True"
| "truthy (PStr s) = (s \<noteq> [])"
| "truthy (PList xs) = (xs \<noteq> [])"
| "truthy (PDict d) = (d \<noteq> [])"
| "truthy (PDateTime _) = True"

fun type_name :: "pyval \<Rightarrow> string" where
  "type_name PNone = ''NoneType''"
| "type_name (PBool _) = ''bool''"
| "type_name (PInt _) = ''int''"
| "type_name (PFloat _) = ''float''"
| "type_name (PStr _) = ''str''"
| "type_name (PList _) = ''list''"
| "type_name (PDict _) = ''dict''"
| "type_name (PDateTime _) = ''datetime.datetime''"

section \<open>String operations\<close>

text \<open>\<^verbatim>\<open>s.startswith(p)\<close>, \<^verbatim>\<open>s.endswith(p)\<close> and \<^verbatim>\<open>p in s\<close>.\<close>

definition startswith :: "string \<Rightarrow> string \<Rightarrow> bool" where
  "startswith s p = (take (length p) s = p)"

definition endswith :: "string \<Rightarrow> string \<Rightarrow> bool" where
  "endswith s p = (length p \<le> length s \<and> drop (length s - length p) s = p)"

fun contains :: "string \<Rightarrow> string \<Rightarrow> bool" where
  "contains [] p = (p = [])"
| "contains (c # s) p = (startswith (c # s) p \<or> contains s p)"

text \<open>
  The characters \<^verbatim>\<open>str.strip()\<close> removes: the code points Python counts as white
  space, each as its UTF-8 encoding (U+0009..U+000D, U+001C..U+0020, U+0085, U+00A0,
  U+1680, U+2000..U+200A, U+2028, U+2029, U+202F, U+205F, U+3000).
\<close>

definition py_whitespace :: "string list" where
  "py_whitespace =
    [[CHR 0x09], [CHR 0x0A], [CHR 0x0B], [CHR 0x0C], [CHR 0x0D],
     [CHR 0x1C], [CHR 0x1D], [CHR 0x1E], [CHR 0x1F], [CHR 0x20],
     [CHR 0xC2, CHR 0x85], [CHR 0xC2, CHR 0xA0],
     [CHR 0xE1, CHR 0x9A, CHR 0x80],
     [CHR 0xE2, CHR 0x80, CHR 0x80], [CHR 0xE2, CHR 0x80, CHR 0x81],
     [CHR 0xE2, CHR 0x80, CHR 0x82], [CHR 0xE2, CHR 0x80, CHR 0x83],
     [CHR 0xE2, CHR 0x80, CHR 0x84], [CHR 0xE2, CHR 0x80, CHR 0x85],
     [CHR 0xE2, CHR 0x80, CHR 0x86], [CHR 0xE2, CHR 0x80, CHR 0x87],
     [CHR 0xE2, CHR 0x80, CHR 0x88], [CHR 0xE2, CHR 0x80, CHR 0x89],
     [CHR 0xE2, CHR 0x80, CHR 0x8A],
     [CHR 0xE2, CHR 0x80, CHR 0xA8], [CHR 0xE2, CHR 0x80, CHR 0xA9],
     [CHR 0xE2, CHR 0x80, CHR 0xAF], [CHR 0xE2, CHR 0x81, CHR 0x9F],
     [CHR 0xE3, CHR 0x80, CHR 0x80]]"

text \<open>Removing leading occurrences of the given (non-empty) sequences.\<close>

function strip_leading :: "string list \<Rightarrow> string \<Rightarrow> string" where
  "strip_leading ws s =
     (case find (\<lambda>w. w \<noteq> [] \<and> startswith s w) ws of
        None \<Rightarrow> s
      | Some w \<Rightarrow> strip_leading ws (drop (length w) s))"
  by pat_completeness auto
termination
proof (relation "measure (\<lambda>(ws, s). length s)")
  show "wf (measure (\<lambda>(ws, s). length s))" by simp
next
  fix ws :: "string list" and s w :: string
  assume "find (\<lambda>w. w \<noteq> [] \<and> startswith s w) ws = Some w"
  then have "w \<noteq> []" and "startswith s w"
    by (auto simp: find_Some_iff)
  then have "s \<noteq> []"
    by (auto simp: startswith_def)
  with \<open>w \<noteq> []\<close> show "((ws, drop (length w) s), (ws, s)) \<in> measure (\<lambda>(ws, s). length s)"
    by simp
qed

definition lstrip :: "string \<Rightarrow> string" where
  "lstrip s = strip_leading py_whitespace s"

definition rstrip :: "string \<Rightarrow> string" where
  "rstrip s = rev (strip_leading (map rev py_whitespace) (rev s))"

definition py_strip :: "string \<Rightarrow> string" where
  "py_strip s = rstrip (lstrip s)"

section \<open>Risk classification\<close>

text \<open>
  Lines 330--344 of \<^verbatim>\<open>app.py\<close>: the three variables are initialised for the low
  level, then overwritten when the score exceeds 50, then again when it exceeds 80.
  The emoji are given by their UTF-8 bytes (U+2705; U+26A0 U+FE0F; U+274C).
\<close>

record risk_display =
  risk_class :: string
  status_emoji :: string
  approval_action :: string

definition classify :: "int \<Rightarrow> risk_display" where
  "classify score =
    (let r0 = \<lparr>risk_class = ''risk-low'',
               status_emoji = [CHR 0xE2, CHR 0x9C, CHR 0x85],
               approval_action = ''Auto-Approve''\<rparr>;
         r1 = (if score > 50
               then \<lparr>risk_class = ''risk-medium'',
                     status_emoji = [CHR 0xE2, CHR 0x9A, CHR 0xA0, CHR 0xEF, CHR 0xB8, CHR 0x8F],
                     approval_action = ''Requires Review''\<rparr>
               else r0);
         r2 = (if score > 80
               then \<lparr>risk_class = ''risk-high'',
                     status_emoji = [CHR 0xE2, CHR 0x9D, CHR 0x8C],
                     approval_action = ''Auto-Reject''\<rparr>
               else r1)
     in r2)"

section \<open>The library and the outside world\<close>

text \<open>
  Functions of the Python library whose results the source uses and whose
  algorithms are not part of it are parameters of the model: the JSON parser, the
  parsing of numbers from strings by \<^verbatim>\<open>float\<close> and \<^verbatim>\<open>int\<close>, the formatting and parsing of
  dates, the sort behind \<^verbatim>\<open>DataFrame.sort_values(ascending=False)\<close>, and the sum of
  a column of floats by \<^verbatim>\<open>Series.sum()\<close> (the order in which numpy adds the values
  is its own).
\<close>

record pylib =
  json_loads :: "string \<Rightarrow> exn + pyval"
  float_of_str :: "string \<Rightarrow> exn + pyfloat"
  int_of_str :: "string \<Rightarrow> exn + int"
  strftime :: "datetime \<Rightarrow> string \<Rightarrow> string"
  strptime :: "string \<Rightarrow> string \<Rightarrow> exn + datetime"
  sort_values_desc :: "(string \<times> real) list \<Rightarrow> (string \<times> real) list"
  column_sum :: "real list \<Rightarrow> pyfloat"

text \<open>\<^verbatim>\<open>float(x)\<close>: a \<^verbatim>\<open>bool\<close> is an \<^verbatim>\<open>int\<close>; an \<^verbatim>\<open>int\<close> beyond the range of a double overflows.\<close>

definition squote :: "string \<Rightarrow> string" where
  "squote s = [CHR 0x27] @ s @ [CHR 0x27]"

fun py_float :: "pylib \<Rightarrow> pyval \<Rightarrow> exn + pyfloat" where
  "py_float lib (PFloat f) = Inr f"
| "py_float lib (PInt n) =
     (if \<bar>n\<bar> < 2 ^ 1024 - 2 ^ 970 then Inr (Fin (of_int n))
      else Inl (Exn ''OverflowError'' ''int too large to convert to float''))"
| "py_float lib (PBool b) = Inr (Fin (if b then 1 else 0))"
| "py_float lib (PStr s) = float_of_str lib s"
| "py_float lib x =
     Inl (Exn ''TypeError''
       (''float() argument must be a string or a real number, not '' @ squote (type_name x)))"

text \<open>\<^verbatim>\<open>int(x)\<close>: a float is truncated towards zero.\<close>

fun py_int :: "pylib \<Rightarrow> pyval \<Rightarrow> exn + int" where
  "py_int lib (PInt n) = Inr n"
| "py_int lib (PBool b) = Inr (if b then 1 else 0)"
| "py_int lib (PFloat (Fin r)) = Inr (if 0 \<le> r then \<lfloor>r\<rfloor> else \<lceil>r\<rceil>)"
| "py_int lib (PFloat NaN) = Inl (Exn ''ValueError'' ''cannot convert float NaN to integer'')"
| "py_int lib (PFloat _) =
     Inl (Exn ''OverflowError'' ''cannot convert float infinity to integer'')"
| "py_int lib (PStr s) = int_of_str lib s"
| "py_int lib x =
     Inl (Exn ''TypeError''
       (''int() argument must be a string, a bytes-like object or a real number, not ''
          @ squote (type_name x)))"

text \<open>\<^verbatim>\<open>datetime.strptime(x, fmt)\<close>: the first argument must be a string.\<close>

fun py_strptime :: "pylib \<Rightarrow> pyval \<Rightarrow> string \<Rightarrow> exn + datetime" where
  "py_strptime lib (PStr s) fmt = strptime lib s fmt"
| "py_strptime lib x fmt =
     Inl (Exn ''TypeError'' (''strptime() argument 1 must be str, not '' @ type_name x))"

text \<open>
  What the environment answers to the calls of \<^verbatim>\<open>analyze_receipt_with_ai\<close>:
  the environment variable, the secrets file (the lookup raises when the file or the
  key is missing), the clock, and the calls of the \<^verbatim>\<open>genai\<close> and \<^verbatim>\<open>PIL\<close> packages, each
  of which may raise. \<^verbatim>\<open>genai.list_models()\<close> yields models and may raise after them.
  \<^verbatim>\<open>generate_content\<close> is the call with the fixed prompt of the source; its result
  is the outcome of reading \<^verbatim>\<open>response.text\<close>, which may raise too.
\<close>

record model_info =
  m_name :: string
  supported_generation_methods :: "string list"

record ('img, 'pil) world =
  environ_API_KEY :: "string option"
  secrets_GEMINI_API_KEY :: "exn + pyval"
  datetime_now :: datetime
  genai_configure :: "pyval \<Rightarrow> exn option"
  genai_list_models :: "model_info list \<times> exn option"
  genai_GenerativeModel :: "string \<Rightarrow> exn option"
  Image_open :: "'img \<Rightarrow> exn + 'pil"
  generate_content :: "string \<Rightarrow> 'pil \<Rightarrow> exn + (exn + string)"

text \<open>
  The calls the function makes, in order. \<^verbatim>\<open>genai.list_models()\<close> and
  \<^verbatim>\<open>model.generate_content\<close> are the requests to the external service.
\<close>

datatype event =
    StError string
  | Configure
  | ListModels
  | NewGenerativeModel string
  | ImageOpen
  | GenerateContent string

fun is_network_call :: "event \<Rightarrow> bool" where
  "is_network_call ListModels = True"
| "is_network_call (GenerateContent _) = True"
| "is_network_call _ = False"

section \<open>The receipt analyzer\<close>

text \<open>Lines 132--137: the environment variable first, then the secrets file.\<close>

definition resolve_api_key :: "('img, 'pil) world \<Rightarrow> pyval" where
  "resolve_api_key w =
    (let api_key = (case environ_API_KEY w of None \<Rightarrow> PNone | Some s \<Rightarrow> PStr s)
     in if \<not> truthy api_key
        then (case secrets_GEMINI_API_KEY w of Inr v \<Rightarrow> v | Inl _ \<Rightarrow> api_key)
        else api_key)"

text \<open>
  Lines 154--161: the first listed model that generates content and has
  \<^verbatim>\<open>flash\<close> in its name; the default name when there is none, also when the listing
  raises (the exception is passed over).
\<close>

fun select_model :: "model_info list \<Rightarrow> string \<Rightarrow> string" where
  "select_model [] model_name = model_name"
| "select_model (m # ms) model_name =
     (if ''generateContent'' \<in> set (supported_generation_methods m)
         \<and> contains (m_name m) ''flash''
      then m_name m
      else select_model ms model_name)"

text \<open>Lines 185--190: cleaning the response text of a Markdown code fence.\<close>

definition clean_response :: "string \<Rightarrow> string" where
  "clean_response text =
    (let response_text = py_strip text;
         response_text = (if startswith response_text ''```json''
                          then drop 7 response_text else response_text);
         response_text = (if endswith response_text ''```''
                          then take (length response_text - 3) response_text
                          else response_text)
     in response_text)"

text \<open>
  Lines 192--198: parsing, then the two coercions. \<^verbatim>\<open>data.get\<close> exists on a
  dictionary only.
\<close>

definition ensure_data_types :: "pylib \<Rightarrow> pyval \<Rightarrow> exn + pydict" where
  "ensure_data_types lib data =
    (case data of
       PDict d \<Rightarrow>
         (case py_float lib (dict_get d ''amount'' (PFloat (Fin 0))) of
            Inl e \<Rightarrow> Inl e
          | Inr a \<Rightarrow>
              (let d1 = dict_set d ''amount'' (PFloat a)
               in case py_int lib (dict_get d1 ''risk_score'' (PInt 0)) of
                    Inl e \<Rightarrow> Inl e
                  | Inr r \<Rightarrow> Inr (dict_set d1 ''risk_score'' (PInt r))))
     | _ \<Rightarrow>
         Inl (Exn ''AttributeError''
           (squote (type_name data) @ '' object has no attribute '' @ squote ''get'')))"

definition parse_response :: "pylib \<Rightarrow> string \<Rightarrow> exn + pydict" where
  "parse_response lib text =
    (case json_loads lib (clean_response text) of
       Inl e \<Rightarrow> Inl e
     | Inr data \<Rightarrow> ensure_data_types lib data)"

text \<open>
  Lines 150--198, the body of the \<^verbatim>\<open>try\<close>: its result or the exception raised in
  it, and the calls made.
\<close>

definition analyze_try ::
  "pylib \<Rightarrow> ('img, 'pil) world \<Rightarrow> pyval \<Rightarrow> 'img \<Rightarrow> (exn + pydict) \<times> event list" where
  "analyze_try lib w api_key uploaded_image =
    (case genai_configure w api_key of
       Some e \<Rightarrow> (Inl e, [Configure])
     | None \<Rightarrow>
        (let model_name = select_model (fst (genai_list_models w)) ''gemini-1.5-flash'';
             tr = [Configure, ListModels, NewGenerativeModel model_name]
         in case genai_GenerativeModel w model_name of
              Some e \<Rightarrow> (Inl e, tr)
            | None \<Rightarrow>
               (case Image_open w uploaded_image of
                  Inl e \<Rightarrow> (Inl e, tr @ [ImageOpen])
                | Inr pil_image \<Rightarrow>
                   (case generate_content w model_name pil_image of
                      Inl e \<Rightarrow> (Inl e, tr @ [ImageOpen, GenerateContent model_name])
                    | Inr (Inl e) \<Rightarrow> (Inl e, tr @ [ImageOpen, GenerateContent model_name])
                    | Inr (Inr text) \<Rightarrow>
                        (parse_response lib text,
                         tr @ [ImageOpen, GenerateContent model_name])))))"

text \<open>The two degraded records, lines 141--148 and 202--209.\<close>

definition missing_key_record :: "pylib \<Rightarrow> ('img, 'pil) world \<Rightarrow> pydict" where
  "missing_key_record lib w =
    [(''vendor'', PStr ''Unknown''),
     (''date'', PStr (strftime lib (datetime_now w) ''%Y-%m-%d'')),
     (''amount'', PFloat (Fin 0)),
     (''category'', PStr ''Uncategorized''),
     (''risk_score'', PInt 0),
     (''risk_reason'', PStr ''API Key missing.'')]"

definition error_record :: "pylib \<Rightarrow> ('img, 'pil) world \<Rightarrow> exn \<Rightarrow> pydict" where
  "error_record lib w e =
    [(''vendor'', PStr ''Error''),
     (''date'', PStr (strftime lib (datetime_now w) ''%Y-%m-%d'')),
     (''amount'', PFloat (Fin 0)),
     (''category'', PStr ''Error''),
     (''risk_score'', PInt 0),
     (''risk_reason'', PStr (''Analysis failed: '' @ exn_str e))]"

text \<open>Lines 128--209: the record returned and the calls made.\<close>

definition analyze_receipt_with_ai ::
  "pylib \<Rightarrow> ('img, 'pil) world \<Rightarrow> 'img \<Rightarrow> pydict \<times> event list" where
  "analyze_receipt_with_ai lib w uploaded_image =
    (let api_key = resolve_api_key w
     in if \<not> truthy api_key
        then (missing_key_record lib w,
              [StError (''API Key not found. Please set API_KEY in environment ''
                        @ ''or GEMINI_API_KEY in .streamlit/secrets.toml'')])
        else (case analyze_try lib w api_key uploaded_image of
                (Inr data, tr) \<Rightarrow> (data, tr)
              | (Inl e, tr) \<Rightarrow>
                  (error_record lib w e,
                   tr @ [StError (''Error analyzing receipt: '' @ exn_str e)])))"

section \<open>The session and the analysis handler\<close>

text \<open>
  A \<^verbatim>\<open>DataFrame\<close> is the list of its rows, each a dictionary from column names to
  cells; a column that a row does not have is null (NaN) in that row, which is what
  \<^verbatim>\<open>pd.concat\<close> makes of frames with different columns.
\<close>

type_synonym dataframe = "pydict list"

text \<open>
  \<^verbatim>\<open>st.session_state\<close>: the key \<^verbatim>\<open>history\<close> is absent until the first analysis;
  \<^verbatim>\<open>full_history\<close> is set when the script starts.
\<close>

record session =
  history :: "pydict list option"
  full_history :: dataframe

text \<open>
  Lines 250--257: the seed of \<^verbatim>\<open>full_history\<close>, 120 rows over six categories in
  rotation. The random amounts and dates are given by the index of the row.
\<close>

definition seed_categories :: "string list" where
  "seed_categories =
    [''Travel'', ''Meals'', ''Software'', ''Office Supplies'', ''Entertainment'',
     ''Client Gifts'']"

definition initial_full_history :: "(nat \<Rightarrow> real) \<Rightarrow> (nat \<Rightarrow> datetime) \<Rightarrow> dataframe" where
  "initial_full_history amount date =
    map (\<lambda>i. [(''Category'', PStr (concat (replicate 20 seed_categories) ! i)),
              (''Amount'', PFloat (Fin (amount i))),
              (''Date'', PDateTime (date i))])
      [0..<120]"

text \<open>
  Lines 304--320, the handler of the analysis button: the record is appended to
  \<^verbatim>\<open>history\<close>; then its date is parsed, the row is built (column \<^verbatim>\<open>Date\<close> set, column
  \<^verbatim>\<open>date\<close> dropped) and appended to \<^verbatim>\<open>full_history\<close>. An exception raised on the way
  leaves the handler with the state as it is by then.
\<close>

definition run_ai_analysis ::
  "pylib \<Rightarrow> ('img, 'pil) world \<Rightarrow> 'img \<Rightarrow> session \<Rightarrow> exn option \<times> session" where
  "run_ai_analysis lib w uploaded_file st =
    (let data = fst (analyze_receipt_with_ai lib w uploaded_file);
         st1 = st\<lparr>history := Some ((case history st of None \<Rightarrow> [] | Some h \<Rightarrow> h) @ [data])\<rparr>
     in case map_of data ''date'' of
          None \<Rightarrow> (Some (Exn ''KeyError'' (squote ''date'')), st1)
        | Some v \<Rightarrow>
           (case py_strptime lib v ''%Y-%m-%d'' of
              Inl e \<Rightarrow> (Some e, st1)
            | Inr d \<Rightarrow>
               (let df_new = dict_set data ''Date'' (PDateTime d);
                    new_row = filter (\<lambda>(k, v). k \<noteq> ''date'') df_new
                in (None, st1\<lparr>full_history := full_history st1 @ [new_row]\<rparr>))))"

text \<open>Lines 328--329: the record shown, the last of \<^verbatim>\<open>history\<close> when there is one.\<close>

definition latest :: "session \<Rightarrow> pydict option" where
  "latest st =
    (case history st of
       None \<Rightarrow> None
     | Some h \<Rightarrow> if h = [] then None else Some (last h))"

text \<open>Lines 462--465: the records listed, in the order of \<^verbatim>\<open>history\<close>.\<close>

definition all_records :: "session \<Rightarrow> pydict list" where
  "all_records st = (case history st of None \<Rightarrow> [] | Some h \<Rightarrow> h)"

section \<open>Aggregation\<close>

text \<open>
  The cell of a row in a column; \<^verbatim>\<open>None\<close> and NaN are null, like a missing column.
\<close>

definition cell :: "pydict \<Rightarrow> string \<Rightarrow> pyval option" where
  "cell row c =
    (case map_of row c of
       None \<Rightarrow> None
     | Some PNone \<Rightarrow> None
     | Some (PFloat NaN) \<Rightarrow> None
     | Some v \<Rightarrow> Some v)"


definition amount_of :: "pydict \<Rightarrow> real option option" where
  "amount_of row =
    (case cell row ''Amount'' of
       None \<Rightarrow> Some None
     | Some (PFloat (Fin a)) \<Rightarrow> Some (Some a)
     | Some _ \<Rightarrow> None)"






text \<open>Line 406: the sum of the totals.\<close>

definition total_spending :: "(string \<times> real) list \<Rightarrow> real" where
  "total_spending df_summary = sum_list (map snd df_summary)"





section \<open>Binary floating point\<close>

text \<open>
  A Python \<^verbatim>\<open>float\<close> is an IEEE 754 double: 53 significant bits, exponents from
  -1022 to 1023, every result rounded to the nearest double, a tie to the one with
  an even significand, and to an infinity when the rounded value reaches \<open>2 ^ 1024\<close>.

  \<open>round_half_even\<close> rounds a real to the nearest integer, a tie to the even one.
  \<open>binade x\<close> is the exponent of \<open>x\<close>: the least \<open>e\<close> from -1022 on with
  \<open>\<bar>x\<bar> < 2 ^ (e + 1)\<close>, and 1024 when there is none up to 1023. The doubles of
  exponent \<open>e\<close> are the multiples of \<open>2 ^ (e - 52)\<close>.
\<close>

definition round_half_even :: "real \<Rightarrow> int" where
  "round_half_even y =
    (let f = \<lfloor>y\<rfloor>; d = y - of_int f
     in if d < 1 / 2 then f else if 1 / 2 < d then f + 1 else if even f then f else f + 1)"

fun binade_from :: "nat \<Rightarrow> int \<Rightarrow> real \<Rightarrow> int" where
  "binade_from 0 e x = e"
| "binade_from (Suc n) e x = (if \<bar>x\<bar> < 2 powi (e + 1) then e else binade_from n (e + 1) x)"

definition binade :: "real \<Rightarrow> int" where
  "binade x = binade_from 2046 (- 1022) x"

definition round_double :: "real \<Rightarrow> real" where
  "round_double x =
    (let q = 2 powi (binade x - 52) in of_int (round_half_even (x / q)) * q)"

definition fl :: "real \<Rightarrow> pyfloat" where
  "fl x =
    (let v = round_double x
     in if 2 powi 1024 \<le> \<bar>v\<bar> then (if 0 < x then PosInf else NegInf) else Fin v)"

text \<open>The operations \<^verbatim>\<open>-x\<close>, \<^verbatim>\<open>x + y\<close> and \<^verbatim>\<open>x * y\<close> on floats.\<close>

fun pf_neg :: "pyfloat \<Rightarrow> pyfloat" where
  "pf_neg (Fin a) = Fin (- a)"
| "pf_neg PosInf = NegInf"
| "pf_neg NegInf = PosInf"
| "pf_neg NaN = NaN"

fun pf_add :: "pyfloat \<Rightarrow> pyfloat \<Rightarrow> pyfloat" where
  "pf_add (Fin a) (Fin b) = fl (a + b)"
| "pf_add NaN y = NaN"
| "pf_add x NaN = NaN"
| "pf_add PosInf NegInf = NaN"
| "pf_add NegInf PosInf = NaN"
| "pf_add PosInf y = PosInf"
| "pf_add x PosInf = PosInf"
| "pf_add NegInf y = NegInf"
| "pf_add x NegInf = NegInf"

fun pf_sign :: "pyfloat \<Rightarrow> int" where
  "pf_sign (Fin a) = (if a < 0 then - 1 else if a = 0 then 0 else 1)"
| "pf_sign PosInf = 1"
| "pf_sign NegInf = - 1"
| "pf_sign NaN = 0"

fun pf_mul :: "pyfloat \<Rightarrow> pyfloat \<Rightarrow> pyfloat" where
  "pf_mul (Fin a) (Fin b) = fl (a * b)"
| "pf_mul NaN y = NaN"
| "pf_mul x NaN = NaN"
| "pf_mul x y =
     (if pf_sign x * pf_sign y = 0 then NaN
      else if 0 < pf_sign x * pf_sign y then PosInf else NegInf)"

section \<open>The advisor\<close>

text \<open>
  \<^verbatim>\<open>random.uniform(a, b)\<close> is \<^verbatim>\<open>a + (b - a) * self.random()\<close>, computed in floats; the
  draw of \<^verbatim>\<open>random()\<close>, a float in \<open>[0, 1)\<close>, is an argument.
\<close>

definition uniform :: "pyfloat \<Rightarrow> pyfloat \<Rightarrow> pyfloat \<Rightarrow> pyfloat" where
  "uniform a b r = pf_add a (pf_mul (pf_add b (pf_neg a)) r)"

text \<open>
  \<^verbatim>\<open>round(x, 2)\<close> on a float: the value of \<open>x\<close> rounded to the nearest hundredth, a
  tie to the even one, then the double nearest to that; an infinity or a NaN is
  returned as it is.
\<close>

fun py_round2 :: "pyfloat \<Rightarrow> pyfloat" where
  "py_round2 (Fin x) = fl (of_int (round_half_even (x * 100)) / 100)"
| "py_round2 x = x"

text \<open>\<^verbatim>\<open>df_history['Amount'].sum()\<close>: the library's sum of the cells that are not null.\<close>

definition amount_values :: "dataframe \<Rightarrow> real list" where
  "amount_values df =
    concat (map (\<lambda>row. case amount_of row of Some (Some a) \<Rightarrow> [a] | _ \<Rightarrow> []) df)"

definition amount_sum :: "pylib \<Rightarrow> dataframe \<Rightarrow> pyfloat option" where
  "amount_sum lib df =
    (if list_all (\<lambda>row. amount_of row \<noteq> None) df
     then Some (column_sum lib (amount_values df)) else None)"

record advice_data =
  monthly_forecast :: pyfloat
  cuttable_expenses :: string
  advice :: "string list"

definition advice_list :: "string list" where
  "advice_list =
    [''Your **Software** spending is efficient at just 15% of your total budget. ''
       @ ''Keep utilizing subscription bundles.'',
     ''The **Meals** category shows frequent high-value transactions. ''
       @ ''Consider setting a daily cap of $50 to cut costs by 15%.'',
     ''**Entertainment** expenses currently exceed internal policy thresholds. ''
       @ ''We recommend cutting these expenses completely to save $1,200/month.'',
     ''Optimize **Travel** by booking flights 21 days in advance; ''
       @ ''this could reduce airfare costs by 10% next month.'']"

text \<open>
  Line 228, the local variable \<^verbatim>\<open>forecast\<close>; the literals \<^verbatim>\<open>0.95\<close> and \<^verbatim>\<open>1.05\<close> are
  the doubles nearest to them.
\<close>

definition forecast :: "pylib \<Rightarrow> dataframe \<Rightarrow> real \<Rightarrow> pyfloat option" where
  "forecast lib df_history r =
    (case amount_sum lib df_history of
       None \<Rightarrow> None
     | Some amount_total \<Rightarrow>
         Some (pf_mul amount_total (uniform (fl 0.95) (fl 1.05) (Fin r))))"

text \<open>Lines 211--234 (the two seconds of sleep are not modelled).\<close>

definition get_financial_advice_and_prediction ::
  "pylib \<Rightarrow> dataframe \<Rightarrow> real \<Rightarrow> advice_data option" where
  "get_financial_advice_and_prediction lib df_history r =
    (case forecast lib df_history r of
       None \<Rightarrow> None
     | Some f \<Rightarrow>
         Some \<lparr>monthly_forecast = py_round2 f,
               cuttable_expenses = ''Entertainment, High-Value Meals'',
               advice = advice_list\<rparr>)"

section \<open>A library and a world for the examples\<close>

text \<open>
  The examples below run the model on concrete inputs. \<open>demo_lib\<close> gives the
  answers of CPython 3 and pandas at the inputs the examples use: a JSON parser that
  knows three documents (white space around a document is ignored) and rejects any
  other text the way \<^verbatim>\<open>json.loads\<close> rejects a text that does not begin with a value,
  the format \<^verbatim>\<open>%Y-%m-%d\<close> at two dates, a stable sort by descending total, and the
  sum of a column from left to right (as numpy adds fewer than eight values).
\<close>

definition json_whitespace :: "char \<Rightarrow> bool" where
  "json_whitespace c = (c = CHR 0x20 \<or> c = CHR 0x09 \<or> c = CHR 0x0A \<or> c = CHR 0x0D)"

definition receipt_json :: string where
  \<open>receipt_json =
    ''{"vendor": "Cafe", "date": "2024-12-25", "amount": 12.5, ''
      @ ''"category": "Meals", "risk_score": 10, "risk_reason": "ok"}''\<close>

definition receipt_json_slash_date :: string where
  \<open>receipt_json_slash_date =
    ''{"vendor": "Cafe", "date": "12/25/2024", "amount": 12.5, ''
      @ ''"category": "Meals", "risk_score": 10, "risk_reason": "ok"}''\<close>

definition receipt_json_out_of_range :: string where
  \<open>receipt_json_out_of_range =
    ''{"vendor": "Casino", "date": "2024-12-25", "amount": -5.0, ''
      @ ''"category": "Entertainment", "risk_score": 150, "risk_reason": "gambling"}''\<close>

definition demo_json_loads :: "string \<Rightarrow> exn + pyval" where
  "demo_json_loads s =
    (let t = rev (dropWhile json_whitespace (rev (dropWhile json_whitespace s)))
     in if t = ''{}'' then Inr (PDict [])
        else if t = receipt_json then
          Inr (PDict [(''vendor'', PStr ''Cafe''), (''date'', PStr ''2024-12-25''),
                      (''amount'', PFloat (Fin 12.5)), (''category'', PStr ''Meals''),
                      (''risk_score'', PInt 10), (''risk_reason'', PStr ''ok'')])
        else if t = receipt_json_slash_date then
          Inr (PDict [(''vendor'', PStr ''Cafe''), (''date'', PStr ''12/25/2024''),
                      (''amount'', PFloat (Fin 12.5)), (''category'', PStr ''Meals''),
                      (''risk_score'', PInt 10), (''risk_reason'', PStr ''ok'')])
        else if t = receipt_json_out_of_range then
          Inr (PDict [(''vendor'', PStr ''Casino''), (''date'', PStr ''2024-12-25''),
                      (''amount'', PFloat (Fin (- 5))), (''category'', PStr ''Entertainment''),
                      (''risk_score'', PInt 150), (''risk_reason'', PStr ''gambling'')])
        else Inl (Exn ''JSONDecodeError'' ''Expecting value: line 1 column 1 (char 0)''))"

definition demo_now :: datetime where
  "demo_now = \<lparr>dt_year = 2026, dt_month = 11, dt_day = 4,
               dt_hour = 9, dt_minute = 30, dt_second = 0\<rparr>"

definition demo_strftime :: "datetime \<Rightarrow> string \<Rightarrow> string" where
  "demo_strftime d fmt = (if d = demo_now \<and> fmt = ''%Y-%m-%d'' then ''2026-11-04'' else fmt)"

definition demo_strptime :: "string \<Rightarrow> string \<Rightarrow> exn + datetime" where
  "demo_strptime s fmt =
    (if s = ''2026-11-04'' \<and> fmt = ''%Y-%m-%d''
     then Inr \<lparr>dt_year = 2026, dt_month = 11, dt_day = 4,
               dt_hour = 0, dt_minute = 0, dt_second = 0\<rparr>
     else if s = ''2024-12-25'' \<and> fmt = ''%Y-%m-%d''
     then Inr \<lparr>dt_year = 2024, dt_month = 12, dt_day = 25,
               dt_hour = 0, dt_minute = 0, dt_second = 0\<rparr>
     else Inl (Exn ''ValueError''
            (''time data '' @ squote s @ '' does not match format '' @ squote fmt)))"

definition demo_lib :: pylib where
  "demo_lib =
    \<lparr>json_loads = demo_json_loads,
     float_of_str = (\<lambda>s. Inl (Exn ''ValueError''
                       (''could not convert string to float: '' @ squote s))),
     int_of_str = (\<lambda>s. Inl (Exn ''ValueError''
                       (''invalid literal for int() with base 10: '' @ squote s))),
     strftime = demo_strftime,
     strptime = demo_strptime,
     sort_values_desc = sort_key (\<lambda>x. - snd x),
     column_sum = (\<lambda>xs. foldl pf_add (Fin 0) (map Fin xs))\<rparr>"

text \<open>
  A world with the given environment variable and no secrets file, in which every
  call succeeds and the model answers with the given text (or fails as given).
\<close>

definition demo_world :: "string option \<Rightarrow> exn + (exn + string) \<Rightarrow> (unit, unit) world" where
  "demo_world key answer =
    \<lparr>environ_API_KEY = key,
     secrets_GEMINI_API_KEY = Inl (Exn ''FileNotFoundError'' ''No secrets files found.''),
     datetime_now = demo_now,
     genai_configure = (\<lambda>k. None),
     genai_list_models =
       ([\<lparr>m_name = ''models/embedding-001'', supported_generation_methods = [''embedContent'']\<rparr>,
         \<lparr>m_name = ''models/gemini-1.5-flash'',
          supported_generation_methods = [''generateContent'', ''countTokens'']\<rparr>], None),
     genai_GenerativeModel = (\<lambda>n. None),
     Image_open = (\<lambda>f. Inr ()),
     generate_content = (\<lambda>n i. answer)\<rparr>"

definition empty_session :: session where
  "empty_session = \<lparr>history = None, full_history = []\<rparr>"

text \<open>
  Rows of the history table as the seed makes them, and two small tables: the one
  of the specification's example, and one with two categories of equal total.
  \<open>reversing_lib\<close> sorts by descending total too, with equal totals in the
  opposite order.
\<close>

definition history_row :: "string \<Rightarrow> real \<Rightarrow> pydict" where
  "history_row c a = [(''Category'', PStr c), (''Amount'', PFloat (Fin a)), (''Date'', PDateTime demo_now)]"



definition thousand_history :: dataframe where
  "thousand_history = [history_row ''Travel'' 400, history_row ''Meals'' 600]"


section \<open>Risk classification: boundaries\<close>

text \<open>
  C1. For every integer score the classification is High / Auto-Reject above 80,
  Medium / Requires Review above 50 and up to 80, and Low / Auto-Approve up to 50;
  the levels are the style classes \<^verbatim>\<open>risk-high\<close>, \<^verbatim>\<open>risk-medium\<close> and \<^verbatim>\<open>risk-low\<close>.
  At the boundaries: 81 is High, 80 is Medium, 50 and 0 are Low.
\<close>

theorem classify_levels:
  "(risk_class (classify s), approval_action (classify s)) =
     (if s > 80 then (''risk-high'', ''Auto-Reject'')
      else if s > 50 then (''risk-medium'', ''Requires Review'')
      else (''risk-low'', ''Auto-Approve''))
   \<and> (risk_class (classify 81), approval_action (classify 81)) = (''risk-high'', ''Auto-Reject'')
   \<and> (risk_class (classify 80), approval_action (classify 80)) = (''risk-medium'', ''Requires Review'')
   \<and> (risk_class (classify 50), approval_action (classify 50)) = (''risk-low'', ''Auto-Approve'')
   \<and> (risk_class (classify 0), approval_action (classify 0)) = (''risk-low'', ''Auto-Approve'')"
  by (simp add: classify_def Let_def)

section \<open>Lemmas on the analyzer\<close>


lemma analyze_missing_key:
  "\<not> truthy (resolve_api_key w) \<Longrightarrow>
     analyze_receipt_with_ai lib w img =
       (missing_key_record lib w,
        [StError (''API Key not found. Please set API_KEY in environment ''
                  @ ''or GEMINI_API_KEY in .streamlit/secrets.toml'')])"
  by (simp add: analyze_receipt_with_ai_def)

lemma analyze_failure:
  "truthy (resolve_api_key w) \<Longrightarrow> fst (analyze_try lib w (resolve_api_key w) img) = Inl e \<Longrightarrow>
     fst (analyze_receipt_with_ai lib w img) = error_record lib w e"
  by (cases "analyze_try lib w (resolve_api_key w) img")
     (simp add: analyze_receipt_with_ai_def)



lemma not_resolved_iff:
  "\<not> truthy (resolve_api_key w) \<longleftrightarrow>
     (environ_API_KEY w = None \<or> environ_API_KEY w = Some [])
     \<and> ((\<exists>e. secrets_GEMINI_API_KEY w = Inl e)
         \<or> (\<exists>v. secrets_GEMINI_API_KEY w = Inr v \<and> \<not> truthy v))"
  by (auto simp: resolve_api_key_def Let_def split: option.splits sum.splits)

lemma try_failures:
  assumes "genai_configure w k = None"
      and "genai_GenerativeModel w (select_model (fst (genai_list_models w)) ''gemini-1.5-flash'') = None"
  shows "Image_open w img = Inl e \<Longrightarrow> fst (analyze_try lib w k img) = Inl e"
    and "Image_open w img = Inr pil \<Longrightarrow>
         generate_content w (select_model (fst (genai_list_models w)) ''gemini-1.5-flash'') pil = Inl e \<Longrightarrow>
         fst (analyze_try lib w k img) = Inl e"
    and "Image_open w img = Inr pil \<Longrightarrow>
         generate_content w (select_model (fst (genai_list_models w)) ''gemini-1.5-flash'') pil = Inr (Inl e) \<Longrightarrow>
         fst (analyze_try lib w k img) = Inl e"
    and "Image_open w img = Inr pil \<Longrightarrow>
         generate_content w (select_model (fst (genai_list_models w)) ''gemini-1.5-flash'') pil = Inr (Inr t) \<Longrightarrow>
         json_loads lib (clean_response t) = Inl e \<Longrightarrow>
         fst (analyze_try lib w k img) = Inl e"
  using assms by (simp_all add: analyze_try_def Let_def parse_response_def)





section \<open>Failures of the analysis\<close>

text \<open>
  C2. With a credential at hand, whatever exception the body of the \<^verbatim>\<open>try\<close> raises
  --- in particular when opening the image fails (decoding error), when the request
  or the reading of the response text fails (network error), or when the cleaned
  response text is not JSON --- the function returns the record with vendor and
  category \<^verbatim>\<open>Error\<close>, amount 0.0, score 0 and the reason
  \<^verbatim>\<open>Analysis failed: \<close> followed by the text of the exception. The function is
  total: no exception leaves it.
\<close>

theorem analysis_failure_gives_error_record:
  assumes "truthy (resolve_api_key w)"
      and "fst (analyze_try lib w (resolve_api_key w) img) = Inl e
           \<or> genai_configure w (resolve_api_key w) = None
             \<and> genai_GenerativeModel w
                 (select_model (fst (genai_list_models w)) ''gemini-1.5-flash'') = None
             \<and> (Image_open w img = Inl e
                \<or> (\<exists>pil. Image_open w img = Inr pil
                     \<and> (generate_content w
                          (select_model (fst (genai_list_models w)) ''gemini-1.5-flash'') pil = Inl e
                        \<or> generate_content w
                          (select_model (fst (genai_list_models w)) ''gemini-1.5-flash'') pil
                            = Inr (Inl e)
                        \<or> (\<exists>t. generate_content w
                               (select_model (fst (genai_list_models w)) ''gemini-1.5-flash'') pil
                                 = Inr (Inr t)
                             \<and> json_loads lib (clean_response t) = Inl e))))"
  shows "fst (analyze_receipt_with_ai lib w img) =
           [(''vendor'', PStr ''Error''),
            (''date'', PStr (strftime lib (datetime_now w) ''%Y-%m-%d'')),
            (''amount'', PFloat (Fin 0)),
            (''category'', PStr ''Error''),
            (''risk_score'', PInt 0),
            (''risk_reason'', PStr (''Analysis failed: '' @ exn_str e))]"
proof -
  from assms(2) have "fst (analyze_try lib w (resolve_api_key w) img) = Inl e"
    by (auto simp: try_failures)
  with assms(1) show ?thesis
    by (simp add: analyze_failure error_record_def)
qed

theorem analysis_failure_gives_error_record_witness:
  "fst (analyze_receipt_with_ai demo_lib
         (demo_world (Some ''secret'') (Inr (Inr ''Sorry, I cannot read this receipt.''))) ()) =
     [(''vendor'', PStr ''Error''),
      (''date'', PStr ''2026-11-04''),
      (''amount'', PFloat (Fin 0)),
      (''category'', PStr ''Error''),
      (''risk_score'', PInt 0),
      (''risk_reason'', PStr ''Analysis failed: Expecting value: line 1 column 1 (char 0)'')]"
proof -
  let ?w = "demo_world (Some ''secret'') (Inr (Inr ''Sorry, I cannot read this receipt.''))"
  have key: "truthy (resolve_api_key ?w)"
    by code_simp
  have fails: "fst (analyze_try demo_lib ?w (resolve_api_key ?w) ()) =
      Inl (Exn ''JSONDecodeError'' ''Expecting value: line 1 column 1 (char 0)'')"
    by code_simp
  have date: "strftime demo_lib (datetime_now ?w) ''%Y-%m-%d'' = ''2026-11-04''"
    by code_simp
  from analysis_failure_gives_error_record [OF key disjI1, OF fails] date
  show ?thesis by simp
qed

section \<open>No credential\<close>

text \<open>
  C3. When the environment variable is unset or empty and the secrets lookup raises
  or gives a false value, the function returns the record with score 0, vendor
  \<^verbatim>\<open>Unknown\<close> and reason \<^verbatim>\<open>API Key missing.\<close>; the only call it makes is
  \<^verbatim>\<open>st.error\<close>, so no request goes to the external service.
\<close>

theorem missing_key_gives_unknown_record_without_request:
  assumes "environ_API_KEY w = None \<or> environ_API_KEY w = Some []"
      and "(\<exists>e. secrets_GEMINI_API_KEY w = Inl e)
           \<or> (\<exists>v. secrets_GEMINI_API_KEY w = Inr v \<and> \<not> truthy v)"
  shows "analyze_receipt_with_ai lib w img =
           ([(''vendor'', PStr ''Unknown''),
             (''date'', PStr (strftime lib (datetime_now w) ''%Y-%m-%d'')),
             (''amount'', PFloat (Fin 0)),
             (''category'', PStr ''Uncategorized''),
             (''risk_score'', PInt 0),
             (''risk_reason'', PStr ''API Key missing.'')],
            [StError (''API Key not found. Please set API_KEY in environment ''
                      @ ''or GEMINI_API_KEY in .streamlit/secrets.toml'')])
         \<and> filter is_network_call (snd (analyze_receipt_with_ai lib w img)) = []"
proof -
  from assms have "\<not> truthy (resolve_api_key w)"
    by (simp only: not_resolved_iff simp_thms)
  then show ?thesis
    by (simp add: analyze_missing_key missing_key_record_def)
qed

theorem missing_key_gives_unknown_record_without_request_witness:
  "analyze_receipt_with_ai demo_lib (demo_world None (Inr (Inr receipt_json))) () =
     ([(''vendor'', PStr ''Unknown''),
       (''date'', PStr ''2026-11-04''),
       (''amount'', PFloat (Fin 0)),
       (''category'', PStr ''Uncategorized''),
       (''risk_score'', PInt 0),
       (''risk_reason'', PStr ''API Key missing.'')],
      [StError (''API Key not found. Please set API_KEY in environment ''
                @ ''or GEMINI_API_KEY in .streamlit/secrets.toml'')])
   \<and> filter is_network_call
        (snd (analyze_receipt_with_ai demo_lib (demo_world None (Inr (Inr receipt_json))) ())) = []"
proof -
  let ?w = "demo_world None (Inr (Inr receipt_json))"
  have env: "environ_API_KEY ?w = None \<or> environ_API_KEY ?w = Some []"
    by (simp add: demo_world_def)
  have sec: "(\<exists>e. secrets_GEMINI_API_KEY ?w = Inl e)
      \<or> (\<exists>v. secrets_GEMINI_API_KEY ?w = Inr v \<and> \<not> truthy v)"
    by (simp add: demo_world_def)
  have date: "strftime demo_lib (datetime_now ?w) ''%Y-%m-%d'' = ''2026-11-04''"
    by code_simp
  from missing_key_gives_unknown_record_without_request [OF env sec, of demo_lib "()"] date
  show ?thesis by simp
qed

text \<open>
  C10. Without a credential the record has category \<^verbatim>\<open>Uncategorized\<close>, amount 0.0
  and the current date formatted with \<^verbatim>\<open>%Y-%m-%d\<close>; when the analysis fails the
  category is \<^verbatim>\<open>Error\<close>, so the two kinds of degraded record differ.
\<close>

theorem degraded_records_distinguishable:
  "(\<not> truthy (resolve_api_key w) \<longrightarrow>
      map_of (fst (analyze_receipt_with_ai lib w img)) ''category'' = Some (PStr ''Uncategorized'')
      \<and> map_of (fst (analyze_receipt_with_ai lib w img)) ''amount'' = Some (PFloat (Fin 0))
      \<and> map_of (fst (analyze_receipt_with_ai lib w img)) ''date''
          = Some (PStr (strftime lib (datetime_now w) ''%Y-%m-%d'')))
   \<and> (truthy (resolve_api_key w)
        \<and> fst (analyze_try lib w (resolve_api_key w) img) = Inl e \<longrightarrow>
      map_of (fst (analyze_receipt_with_ai lib w img)) ''category'' = Some (PStr ''Error''))"
  by (simp add: analyze_missing_key missing_key_record_def analyze_failure error_record_def)

theorem degraded_records_distinguishable_witness:
  "map_of (fst (analyze_receipt_with_ai demo_lib (demo_world (Some []) (Inr (Inr receipt_json))) ()))
       ''category'' = Some (PStr ''Uncategorized'')
   \<and> map_of (fst (analyze_receipt_with_ai demo_lib (demo_world (Some []) (Inr (Inr receipt_json))) ()))
       ''amount'' = Some (PFloat (Fin 0))
   \<and> map_of (fst (analyze_receipt_with_ai demo_lib (demo_world (Some []) (Inr (Inr receipt_json))) ()))
       ''date'' = Some (PStr ''2026-11-04'')
   \<and> map_of (fst (analyze_receipt_with_ai demo_lib
         (demo_world (Some ''secret'') (Inl (Exn ''ServiceUnavailable'' ''503 try again later''))) ()))
       ''category'' = Some (PStr ''Error'')"
proof -
  let ?w = "demo_world (Some []) (Inr (Inr receipt_json))"
  let ?v = "demo_world (Some ''secret'') (Inl (Exn ''ServiceUnavailable'' ''503 try again later''))"
  have nokey: "\<not> truthy (resolve_api_key ?w)"
    by code_simp
  have date: "strftime demo_lib (datetime_now ?w) ''%Y-%m-%d'' = ''2026-11-04''"
    by code_simp
  have key: "truthy (resolve_api_key ?v)
      \<and> fst (analyze_try demo_lib ?v (resolve_api_key ?v) ()) =
          Inl (Exn ''ServiceUnavailable'' ''503 try again later'')"
    by code_simp
  from degraded_records_distinguishable [of ?w demo_lib "()", THEN conjunct1, rule_format, OF nokey]
       degraded_records_distinguishable [of ?v demo_lib "()", THEN conjunct2, rule_format, OF key]
       date
  show ?thesis by simp
qed

section \<open>Types and ranges of the returned record\<close>






section \<open>The store: appending and reading back\<close>

lemma run_history:
  "history (snd (run_ai_analysis lib w img st)) =
     Some (all_records st @ [fst (analyze_receipt_with_ai lib w img)])"
  by (simp add: run_ai_analysis_def Let_def all_records_def split: option.splits sum.splits)

lemma run_date_parsed:
  assumes "map_of (fst (analyze_receipt_with_ai lib w img)) ''date'' = Some (PStr s)"
      and "strptime lib s ''%Y-%m-%d'' = Inr d"
  shows "fst (run_ai_analysis lib w img st) = None"
    and "full_history (snd (run_ai_analysis lib w img st)) =
           full_history st @
           [filter (\<lambda>(k, v). k \<noteq> ''date'')
              (dict_set (fst (analyze_receipt_with_ai lib w img)) ''Date'' (PDateTime d))]"
  using assms by (simp_all add: run_ai_analysis_def Let_def)

lemma run_date_rejected:
  assumes "map_of (fst (analyze_receipt_with_ai lib w img)) ''date'' = Some (PStr s)"
      and "strptime lib s ''%Y-%m-%d'' = Inl e"
  shows "fst (run_ai_analysis lib w img st) = Some e"
    and "full_history (snd (run_ai_analysis lib w img st)) = full_history st"
  using assms by (simp_all add: run_ai_analysis_def Let_def)

lemma degraded_date:
  assumes "\<not> truthy (resolve_api_key w)
           \<or> (\<exists>e. fst (analyze_try lib w (resolve_api_key w) img) = Inl e)"
  shows "map_of (fst (analyze_receipt_with_ai lib w img)) ''date'' =
           Some (PStr (strftime lib (datetime_now w) ''%Y-%m-%d''))"
proof (cases "truthy (resolve_api_key w)")
  case False
  then show ?thesis by (simp add: analyze_missing_key missing_key_record_def)
next
  case True
  with assms obtain e where "fst (analyze_try lib w (resolve_api_key w) img) = Inl e"
    by blast
  with True show ?thesis by (simp add: analyze_failure error_record_def)
qed

text \<open>
  C5, as amended. After the handler has run, the latest record is the one the
  analysis returned and the list of all records is the earlier list followed by that
  record, whatever else happens. The history table grows by exactly one row, at its
  end, whenever the date of the record is a string that \<^verbatim>\<open>strptime\<close> accepts; this
  includes the degraded records of both failure paths, whose date is the formatted
  current date. Success of the analysis is not a condition.
\<close>

theorem append_latest_and_history_growth:
  "latest (snd (run_ai_analysis lib w img st)) = Some (fst (analyze_receipt_with_ai lib w img))
   \<and> all_records (snd (run_ai_analysis lib w img st)) =
       all_records st @ [fst (analyze_receipt_with_ai lib w img)]
   \<and> length (all_records (snd (run_ai_analysis lib w img st))) = length (all_records st) + 1
   \<and> (\<forall>s d. map_of (fst (analyze_receipt_with_ai lib w img)) ''date'' = Some (PStr s)
            \<and> strptime lib s ''%Y-%m-%d'' = Inr d \<longrightarrow>
          fst (run_ai_analysis lib w img st) = None
          \<and> (\<exists>new_row. full_history (snd (run_ai_analysis lib w img st)) =
                          full_history st @ [new_row]))
   \<and> (\<forall>d. (\<not> truthy (resolve_api_key w)
             \<or> (\<exists>e. fst (analyze_try lib w (resolve_api_key w) img) = Inl e))
          \<and> strptime lib (strftime lib (datetime_now w) ''%Y-%m-%d'') ''%Y-%m-%d'' = Inr d \<longrightarrow>
          length (full_history (snd (run_ai_analysis lib w img st))) =
            length (full_history st) + 1)"
proof -
  have a: "latest (snd (run_ai_analysis lib w img st)) =
      Some (fst (analyze_receipt_with_ai lib w img))"
    by (simp add: latest_def run_history)
  have b: "all_records (snd (run_ai_analysis lib w img st)) =
      all_records st @ [fst (analyze_receipt_with_ai lib w img)]"
    by (simp add: all_records_def [of "snd (run_ai_analysis lib w img st)"] run_history)
  have c: "\<And>s d. map_of (fst (analyze_receipt_with_ai lib w img)) ''date'' = Some (PStr s) \<Longrightarrow>
      strptime lib s ''%Y-%m-%d'' = Inr d \<Longrightarrow>
      fst (run_ai_analysis lib w img st) = None
      \<and> (\<exists>new_row. full_history (snd (run_ai_analysis lib w img st)) =
             full_history st @ [new_row])"
    by (simp add: run_date_parsed)
  have d: "\<And>d. \<not> truthy (resolve_api_key w)
        \<or> (\<exists>e. fst (analyze_try lib w (resolve_api_key w) img) = Inl e) \<Longrightarrow>
      strptime lib (strftime lib (datetime_now w) ''%Y-%m-%d'') ''%Y-%m-%d'' = Inr d \<Longrightarrow>
      length (full_history (snd (run_ai_analysis lib w img st))) = length (full_history st) + 1"
    by (simp add: run_date_parsed(2) [OF degraded_date])
  from c d show ?thesis
    unfolding a b by auto
qed

theorem append_latest_and_history_growth_witness:
  "fst (run_ai_analysis demo_lib (demo_world (Some ''secret'') (Inr (Inr receipt_json))) ()
         empty_session) = None
   \<and> (\<exists>new_row. full_history
          (snd (run_ai_analysis demo_lib (demo_world (Some ''secret'') (Inr (Inr receipt_json))) ()
                 empty_session)) = full_history empty_session @ [new_row])"
proof -
  let ?w = "demo_world (Some ''secret'') (Inr (Inr receipt_json))"
  have "map_of (fst (analyze_receipt_with_ai demo_lib ?w ())) ''date'' = Some (PStr ''2024-12-25'')
      \<and> strptime demo_lib ''2024-12-25'' ''%Y-%m-%d'' =
          Inr \<lparr>dt_year = 2024, dt_month = 12, dt_day = 25,
               dt_hour = 0, dt_minute = 0, dt_second = 0\<rparr>"
    by code_simp
  with append_latest_and_history_growth [of demo_lib ?w "()" empty_session]
  show ?thesis by blast
qed

text \<open>
  The claim as stated fails: without a credential nothing is analysed, and the
  history table still gets a row (whose columns are those of the record, not
  \<^verbatim>\<open>Category\<close> and \<^verbatim>\<open>Amount\<close>).
\<close>

theorem history_grows_without_success_counterexample:
  "run_ai_analysis demo_lib (demo_world None (Inr (Inr receipt_json))) () empty_session =
     (None,
      \<lparr>history = Some [[(''vendor'', PStr ''Unknown''), (''date'', PStr ''2026-11-04''),
                         (''amount'', PFloat (Fin 0)), (''category'', PStr ''Uncategorized''),
                         (''risk_score'', PInt 0), (''risk_reason'', PStr ''API Key missing.'')]],
       full_history = [[(''vendor'', PStr ''Unknown''), (''amount'', PFloat (Fin 0)),
                        (''category'', PStr ''Uncategorized''), (''risk_score'', PInt 0),
                        (''risk_reason'', PStr ''API Key missing.''),
                        (''Date'', PDateTime \<lparr>dt_year = 2026, dt_month = 11, dt_day = 4,
                                               dt_hour = 0, dt_minute = 0, dt_second = 0\<rparr>)]]\<rparr>)"
  by code_simp

section \<open>An extracted date that does not parse\<close>

text \<open>
  C7. The handler at a response whose date is \<^verbatim>\<open>12/25/2024\<close>: \<^verbatim>\<open>strptime\<close> raises
  \<^verbatim>\<open>ValueError\<close>, which nothing catches. The record is in \<^verbatim>\<open>history\<close> by then, with
  the date as extracted (not the current date), and the history table has no new
  row.
\<close>

theorem unparseable_date_raises:
  "run_ai_analysis demo_lib (demo_world (Some ''secret'') (Inr (Inr receipt_json_slash_date))) ()
       empty_session =
     (Some (Exn ''ValueError''
        (''time data '' @ squote ''12/25/2024'' @ '' does not match format '' @ squote ''%Y-%m-%d'')),
      \<lparr>history = Some [[(''vendor'', PStr ''Cafe''), (''date'', PStr ''12/25/2024''),
                         (''amount'', PFloat (Fin 12.5)), (''category'', PStr ''Meals''),
                         (''risk_score'', PInt 10), (''risk_reason'', PStr ''ok'')]],
       full_history = []\<rparr>)"
  by code_simp

section \<open>Code fences\<close>

lemma clean_fenced:
  assumes "py_strip t = ''```json'' @ body @ ''```''"
  shows "clean_response t = body"
  using assms by (simp add: clean_response_def Let_def startswith_def endswith_def)

lemma parse_same:
  assumes "json_loads lib (clean_response t) = json_loads lib (clean_response p)"
  shows "parse_response lib t = parse_response lib p"
  using assms by (simp add: parse_response_def)

lemma try_same:
  assumes "parse_response lib t = parse_response lib p"
  shows "analyze_try lib (w\<lparr>generate_content := \<lambda>n i. Inr (Inr t)\<rparr>) k img =
         analyze_try lib (w\<lparr>generate_content := \<lambda>n i. Inr (Inr p)\<rparr>) k img"
  using assms
  by (simp add: analyze_try_def Let_def split: option.splits sum.splits)

lemma analyze_same:
  assumes "parse_response lib t = parse_response lib p"
  shows "analyze_receipt_with_ai lib (w\<lparr>generate_content := \<lambda>n i. Inr (Inr t)\<rparr>) img =
         analyze_receipt_with_ai lib (w\<lparr>generate_content := \<lambda>n i. Inr (Inr p)\<rparr>) img"
proof -
  let ?wt = "w\<lparr>generate_content := \<lambda>n i. Inr (Inr t)\<rparr>"
  let ?wp = "w\<lparr>generate_content := \<lambda>n i. Inr (Inr p)\<rparr>"
  have key: "resolve_api_key ?wt = resolve_api_key ?wp"
    by (simp add: resolve_api_key_def Let_def)
  have missing: "missing_key_record lib ?wt = missing_key_record lib ?wp"
    by (simp add: missing_key_record_def)
  have failed: "\<And>e. error_record lib ?wt e = error_record lib ?wp e"
    by (simp add: error_record_def)
  show ?thesis
    unfolding analyze_receipt_with_ai_def key missing failed try_same [OF assms]
    by (rule refl)
qed

text \<open>
  The fence with the language tag. When the stripped response starts with the
  marker \<^verbatim>\<open>```json\<close> and ends with the marker \<^verbatim>\<open>```\<close>, the text parsed is exactly
  the text between the two markers. So the fenced response gives the same record as
  a response \<open>p\<close> without fence whenever the parser reads that text (the payload and
  the line breaks around it) as it reads the cleaned \<open>p\<close>.
\<close>

theorem json_fence_stripped:
  assumes "py_strip t = ''```json'' @ body @ ''```''"
      and "json_loads lib body = json_loads lib (clean_response p)"
  shows "clean_response t = body
         \<and> parse_response lib t = parse_response lib p
         \<and> analyze_receipt_with_ai lib (w\<lparr>generate_content := \<lambda>n i. Inr (Inr t)\<rparr>) img =
           analyze_receipt_with_ai lib (w\<lparr>generate_content := \<lambda>n i. Inr (Inr p)\<rparr>) img"
proof -
  from assms(1) have body: "clean_response t = body"
    by (rule clean_fenced)
  with assms(2) have "json_loads lib (clean_response t) = json_loads lib (clean_response p)"
    by simp
  then have parse: "parse_response lib t = parse_response lib p"
    by (rule parse_same)
  then have "analyze_receipt_with_ai lib (w\<lparr>generate_content := \<lambda>n i. Inr (Inr t)\<rparr>) img =
      analyze_receipt_with_ai lib (w\<lparr>generate_content := \<lambda>n i. Inr (Inr p)\<rparr>) img"
    by (rule analyze_same)
  with body parse show ?thesis
    by (intro conjI)
qed

theorem json_fence_stripped_witness:
  "clean_response ''```json\<newline>{}\<newline>```'' = ''\<newline>{}\<newline>''
   \<and> parse_response demo_lib ''```json\<newline>{}\<newline>```'' = parse_response demo_lib ''{}''
   \<and> analyze_receipt_with_ai demo_lib
        (demo_world (Some ''secret'') (Inl (Exn ''E'' ''''))
           \<lparr>generate_content := \<lambda>n i. Inr (Inr ''```json\<newline>{}\<newline>```'')\<rparr>) () =
     analyze_receipt_with_ai demo_lib
        (demo_world (Some ''secret'') (Inl (Exn ''E'' ''''))
           \<lparr>generate_content := \<lambda>n i. Inr (Inr ''{}'')\<rparr>) ()"
proof -
  have a: "py_strip ''```json\<newline>{}\<newline>```'' = ''```json'' @ ''\<newline>{}\<newline>'' @ ''```''"
    by code_simp
  have b: "json_loads demo_lib ''\<newline>{}\<newline>'' = json_loads demo_lib (clean_response ''{}'')"
    by code_simp
  from json_fence_stripped [OF a b] show ?thesis .
qed

text \<open>
  C6. A payload wrapped in a fenced code block that has no language tag: the
  closing marker is cut off (line 189 tests for it alone), the opening marker stays
  (line 187 tests for \<^verbatim>\<open>```json\<close> only), so the text given to the parser begins
  with the marker, parsing fails and the record returned is the \<^verbatim>\<open>Error\<close> record.
  The same payload in a fence tagged \<^verbatim>\<open>json\<close>, or with no fence, gives the record of
  the receipt.
\<close>

theorem bare_fence_half_stripped:
  "clean_response (''```\<newline>'' @ receipt_json @ ''\<newline>```'') = ''```\<newline>'' @ receipt_json @ ''\<newline>''
   \<and> fst (analyze_receipt_with_ai demo_lib
         (demo_world (Some ''secret'') (Inr (Inr (''```\<newline>'' @ receipt_json @ ''\<newline>```'')))) ()) =
       [(''vendor'', PStr ''Error''),
        (''date'', PStr ''2026-11-04''),
        (''amount'', PFloat (Fin 0)),
        (''category'', PStr ''Error''),
        (''risk_score'', PInt 0),
        (''risk_reason'', PStr ''Analysis failed: Expecting value: line 1 column 1 (char 0)'')]
   \<and> fst (analyze_receipt_with_ai demo_lib
         (demo_world (Some ''secret'') (Inr (Inr (''```json\<newline>'' @ receipt_json @ ''\<newline>```'')))) ()) =
       [(''vendor'', PStr ''Cafe''), (''date'', PStr ''2024-12-25''),
        (''amount'', PFloat (Fin 12.5)), (''category'', PStr ''Meals''),
        (''risk_score'', PInt 10), (''risk_reason'', PStr ''ok'')]
   \<and> fst (analyze_receipt_with_ai demo_lib
         (demo_world (Some ''secret'') (Inr (Inr receipt_json))) ()) =
       [(''vendor'', PStr ''Cafe''), (''date'', PStr ''2024-12-25''),
        (''amount'', PFloat (Fin 12.5)), (''category'', PStr ''Meals''),
        (''risk_score'', PInt 10), (''risk_reason'', PStr ''ok'')]"
  by code_simp

section \<open>Lemmas on the aggregation\<close>

















section \<open>Category totals and the top categories\<close>




end
